theory Spec2Isabelle
  imports Main "HOL-Library.Multiset"
begin

section \<open>The activity log of django-generic-foreignkey\<close>

text \<open>
  A shallow embedding of \<^verbatim>\<open>action_logs/models.py\<close>, \<^verbatim>\<open>action_logs/signals.py\<close>,
  \<^verbatim>\<open>action_logs/mixins.py\<close> and \<^verbatim>\<open>action_logs/views.py\<close>. Python strings are
  \<open>string\<close>s holding the UTF-8 bytes of the text; \<open>None\<close> is \<open>None\<close>; a dictionary such as
  \<^verbatim>\<open>request.META\<close> or \<^verbatim>\<open>request.GET\<close> is a map; an exception is the left
  summand of a result.
\<close>

subsection \<open>Errors\<close>

datatype error =
    DatabaseError    \<comment> \<open>a statement the database refuses or cannot run\<close>
  | IntegrityError   \<comment> \<open>a foreign key constraint fails at commit\<close>
  | DoesNotExist     \<comment> \<open>a related row is gone\<close>
  | ValueError       \<comment> \<open>\<^verbatim>\<open>Model.delete\<close> of an instance without primary key\<close>
  | Http404

subsection \<open>Python strings\<close>

text \<open>\<^verbatim>\<open>s.split(sep)\<close> for a separator of one character: never an empty list.\<close>

fun py_split :: "char \<Rightarrow> string \<Rightarrow> string list" where
  "py_split sep [] = [[]]"
| "py_split sep (c # cs) =
     (if c = sep then [] # py_split sep cs
      else (case py_split sep cs of
              [] \<Rightarrow> [[c]]
            | w # ws \<Rightarrow> (c # w) # ws))"

text \<open>\<^verbatim>\<open>xs[0]\<close>; the \<^verbatim>\<open>IndexError\<close> on an empty list is \<open>None\<close>.\<close>

definition item0 :: "'a list \<Rightarrow> 'a option" where
  "item0 xs = (case xs of [] \<Rightarrow> None | x # _ \<Rightarrow> Some x)"

text \<open>\<^verbatim>\<open>str(n)\<close> of a non-negative integer.\<close>

definition digit_char :: "nat \<Rightarrow> char" where
  "digit_char n = char_of (48 + n mod 10)"

fun str_nat :: "nat \<Rightarrow> string" where
  "str_nat n = (if n < 10 then [digit_char n] else str_nat (n div 10) @ [digit_char n])"







subsection \<open>The origin address of a request (mixins.py, ActionLoggingMixin.get_client_ip)\<close>

text \<open>
  \<^verbatim>\<open>
  def get_client_ip(self, request):
      x_forwarded_for = request.META.get('HTTP_X_FORWARDED_FOR')
      if x_forwarded_for:
          ip = x_forwarded_for.split(',')[0]
      else:
          ip = request.META.get('REMOTE_ADDR')
      return ip
  \<close>
  The test \<^verbatim>\<open>if x_forwarded_for:\<close> is Python's truth value of a string or \<open>None\<close>:
  false for \<open>None\<close> and for the empty string.
\<close>

type_synonym meta = "string \<rightharpoonup> string"

definition get_client_ip :: "meta \<Rightarrow> string option" where
  "get_client_ip META =
     (case META ''HTTP_X_FORWARDED_FOR'' of
        None \<Rightarrow> META ''REMOTE_ADDR''
      | Some x_forwarded_for \<Rightarrow>
          if x_forwarded_for \<noteq> []
          then item0 (py_split CHR '','' x_forwarded_for)
          else META ''REMOTE_ADDR'')"

subsection \<open>The page size of a listing (mixins.py, EnhancedPaginationMixin)\<close>







subsection \<open>Audit records (models.py, ActionLog)\<close>

text \<open>
  The senders of signals and the rows of the content type table: one per model class.
  \<^verbatim>\<open>ContentType.objects.get_for_model(obj)\<close> is the row of \<open>obj\<close>'s class, so a
  content type is identified with the class; \<open>Other name\<close> is any further model.
\<close>

datatype model_class = User | Blog | Comment | UserProfile | ActionLog | ContentType | Other string

type_synonym content_type = model_class

text \<open>
  The columns of \<^verbatim>\<open>ActionLog\<close>. \<open>log_id\<close> stands for the random UUID primary key,
  \<open>user\<close> and \<open>content_type\<close> are the nullable foreign keys, \<open>object_id\<close> the nullable
  \<^verbatim>\<open>CharField\<close> that holds the target's primary key as a string. The pair
  \<open>(content_type, object_id)\<close> is the generic foreign key \<^verbatim>\<open>content_object\<close>.
\<close>

record action_log =
  log_id :: nat
  action_type :: string
  timestamp :: nat
  user :: "nat option"
  content_type :: "content_type option"
  object_id :: "string option"
  description :: string
  ip_address :: "string option"
  user_agent :: string

subsection \<open>Listing and filtering (models.py, ActionLog.Meta; views.py; mixins.py)\<close>

text \<open>
  \<^verbatim>\<open>ordering = ['-timestamp']\<close>: a query without an order of its own is answered
  in an order that is descending in \<open>timestamp\<close>. The clause names no second column, so
  the database may return rows of equal timestamp in any order: a listing of a table is
  any arrangement of its rows that the clause admits.
\<close>

definition ordering :: "action_log \<Rightarrow> action_log \<Rightarrow> bool" where
  "ordering a b = (timestamp a \<ge> timestamp b)"

definition default_listing :: "action_log list \<Rightarrow> action_log list \<Rightarrow> bool" where
  "default_listing rows result = (mset result = mset rows \<and> sorted_wrt ordering result)"



subsection \<open>Example rows\<close>

text \<open>
  Three records for the examples: one on blog 7 and one on profile 7, written in the
  same instant, and a later one on blog 8.
\<close>

definition log_blog7 :: action_log where
  "log_blog7 = \<lparr>log_id = 1, action_type = ''create'', timestamp = 5, user = Some 1,
     content_type = Some Blog, object_id = Some ''7'', description = ''blog 7'',
     ip_address = None, user_agent = []\<rparr>"

definition log_profile7 :: action_log where
  "log_profile7 = \<lparr>log_id = 2, action_type = ''create'', timestamp = 5, user = Some 1,
     content_type = Some UserProfile, object_id = Some ''7'', description = ''profile 7'',
     ip_address = None, user_agent = []\<rparr>"

definition log_blog8 :: action_log where
  "log_blog8 = \<lparr>log_id = 3, action_type = ''update'', timestamp = 9, user = None,
     content_type = Some Blog, object_id = Some ''8'', description = ''blog 8'',
     ip_address = None, user_agent = []\<rparr>"

subsection \<open>The texts of the descriptions\<close>

text \<open>
  The Ukrainian literals of the descriptions, as their UTF-8 bytes, each named after what
  it says.
\<close>

text \<open>\<^verbatim>\<open>models.py\<close>, Blog.save.\<close>

definition blog_created :: string where
  "blog_created =
    [CHR 0xD0, CHR 0xA1, CHR 0xD1, CHR 0x82, CHR 0xD0, CHR 0xB2, CHR 0xD0, CHR 0xBE,
     CHR 0xD1, CHR 0x80, CHR 0xD0, CHR 0xB5, CHR 0xD0, CHR 0xBD, CHR 0xD0, CHR 0xBE,
     CHR '' '', CHR 0xD0, CHR 0xB1, CHR 0xD0, CHR 0xBB, CHR 0xD0, CHR 0xBE, CHR 0xD0,
     CHR 0xB3, CHR '':'', CHR '' '']"

text \<open>\<^verbatim>\<open>models.py\<close>, Blog.save; \<^verbatim>\<open>signals.py\<close>, log_blog_save.\<close>

definition blog_updated :: string where
  "blog_updated =
    [CHR 0xD0, CHR 0x9E, CHR 0xD0, CHR 0xBD, CHR 0xD0, CHR 0xBE, CHR 0xD0, CHR 0xB2,
     CHR 0xD0, CHR 0xBB, CHR 0xD0, CHR 0xB5, CHR 0xD0, CHR 0xBD, CHR 0xD0, CHR 0xBE,
     CHR '' '', CHR 0xD0, CHR 0xB1, CHR 0xD0, CHR 0xBB, CHR 0xD0, CHR 0xBE, CHR 0xD0,
     CHR 0xB3, CHR '':'', CHR '' '']"

text \<open>\<^verbatim>\<open>models.py\<close>, Blog.delete; \<^verbatim>\<open>signals.py\<close>, log_blog_delete.\<close>

definition blog_deleted :: string where
  "blog_deleted =
    [CHR 0xD0, CHR 0x92, CHR 0xD0, CHR 0xB8, CHR 0xD0, CHR 0xB4, CHR 0xD0, CHR 0xB0,
     CHR 0xD0, CHR 0xBB, CHR 0xD0, CHR 0xB5, CHR 0xD0, CHR 0xBD, CHR 0xD0, CHR 0xBE,
     CHR '' '', CHR 0xD0, CHR 0xB1, CHR 0xD0, CHR 0xBB, CHR 0xD0, CHR 0xBE, CHR 0xD0,
     CHR 0xB3, CHR '':'', CHR '' '']"

text \<open>\<^verbatim>\<open>models.py\<close>, Comment.save.\<close>

definition comment_added :: string where
  "comment_added =
    [CHR 0xD0, CHR 0x94, CHR 0xD0, CHR 0xBE, CHR 0xD0, CHR 0xB4, CHR 0xD0, CHR 0xB0,
     CHR 0xD0, CHR 0xBD, CHR 0xD0, CHR 0xBE, CHR '' '', CHR 0xD0, CHR 0xBA, CHR 0xD0,
     CHR 0xBE, CHR 0xD0, CHR 0xBC, CHR 0xD0, CHR 0xB5, CHR 0xD0, CHR 0xBD, CHR 0xD1,
     CHR 0x82, CHR 0xD0, CHR 0xB0, CHR 0xD1, CHR 0x80, CHR '' '', CHR 0xD0, CHR 0xB4,
     CHR 0xD0, CHR 0xBE, CHR '' '', CHR 0xD0, CHR 0xB1, CHR 0xD0, CHR 0xBB, CHR 0xD0,
     CHR 0xBE, CHR 0xD0, CHR 0xB3, CHR 0xD1, CHR 0x83, CHR '':'', CHR '' '']"

text \<open>\<^verbatim>\<open>signals.py\<close>, log_comment_save.\<close>

definition comment_updated :: string where
  "comment_updated =
    [CHR 0xD0, CHR 0x9E, CHR 0xD0, CHR 0xBD, CHR 0xD0, CHR 0xBE, CHR 0xD0, CHR 0xB2,
     CHR 0xD0, CHR 0xBB, CHR 0xD0, CHR 0xB5, CHR 0xD0, CHR 0xBD, CHR 0xD0, CHR 0xBE,
     CHR '' '', CHR 0xD0, CHR 0xBA, CHR 0xD0, CHR 0xBE, CHR 0xD0, CHR 0xBC, CHR 0xD0,
     CHR 0xB5, CHR 0xD0, CHR 0xBD, CHR 0xD1, CHR 0x82, CHR 0xD0, CHR 0xB0, CHR 0xD1,
     CHR 0x80, CHR '' '', CHR 0xD0, CHR 0xB4, CHR 0xD0, CHR 0xBE, CHR '' '', CHR 0x22]"

text \<open>\<^verbatim>\<open>signals.py\<close>, log_comment_delete.\<close>

definition comment_deleted :: string where
  "comment_deleted =
    [CHR 0xD0, CHR 0x92, CHR 0xD0, CHR 0xB8, CHR 0xD0, CHR 0xB4, CHR 0xD0, CHR 0xB0,
     CHR 0xD0, CHR 0xBB, CHR 0xD0, CHR 0xB5, CHR 0xD0, CHR 0xBD, CHR 0xD0, CHR 0xBE,
     CHR '' '', CHR 0xD0, CHR 0xBA, CHR 0xD0, CHR 0xBE, CHR 0xD0, CHR 0xBC, CHR 0xD0,
     CHR 0xB5, CHR 0xD0, CHR 0xBD, CHR 0xD1, CHR 0x82, CHR 0xD0, CHR 0xB0, CHR 0xD1,
     CHR 0x80, CHR '' '', CHR 0xD0, CHR 0xB4, CHR 0xD0, CHR 0xBE, CHR '' '', CHR 0x22]"

text \<open>\<^verbatim>\<open>models.py\<close>, UserProfile.save.\<close>

definition profile_created :: string where
  "profile_created =
    [CHR 0xD0, CHR 0xA1, CHR 0xD1, CHR 0x82, CHR 0xD0, CHR 0xB2, CHR 0xD0, CHR 0xBE,
     CHR 0xD1, CHR 0x80, CHR 0xD0, CHR 0xB5, CHR 0xD0, CHR 0xBD, CHR 0xD0, CHR 0xBE,
     CHR '' '', CHR 0xD0, CHR 0xBF, CHR 0xD1, CHR 0x80, CHR 0xD0, CHR 0xBE, CHR 0xD1,
     CHR 0x84, CHR 0xD1, CHR 0x96, CHR 0xD0, CHR 0xBB, CHR 0xD1, CHR 0x8C, CHR '' '',
     CHR 0xD0, CHR 0xB4, CHR 0xD0, CHR 0xBB, CHR 0xD1, CHR 0x8F, CHR '' '']"

text \<open>\<^verbatim>\<open>models.py\<close>, UserProfile.save.\<close>

definition profile_updated :: string where
  "profile_updated =
    [CHR 0xD0, CHR 0x9E, CHR 0xD0, CHR 0xBD, CHR 0xD0, CHR 0xBE, CHR 0xD0, CHR 0xB2,
     CHR 0xD0, CHR 0xBB, CHR 0xD0, CHR 0xB5, CHR 0xD0, CHR 0xBD, CHR 0xD0, CHR 0xBE,
     CHR '' '', CHR 0xD0, CHR 0xBF, CHR 0xD1, CHR 0x80, CHR 0xD0, CHR 0xBE, CHR 0xD1,
     CHR 0x84, CHR 0xD1, CHR 0x96, CHR 0xD0, CHR 0xBB, CHR 0xD1, CHR 0x8C, CHR '' '']"

text \<open>\<^verbatim>\<open>signals.py\<close>, log_user_save.\<close>

definition of_user :: string where
  "of_user =
    [CHR '' '', CHR 0xD0, CHR 0xBA, CHR 0xD0, CHR 0xBE, CHR 0xD1, CHR 0x80, CHR 0xD0,
     CHR 0xB8, CHR 0xD1, CHR 0x81, CHR 0xD1, CHR 0x82, CHR 0xD1, CHR 0x83, CHR 0xD0,
     CHR 0xB2, CHR 0xD0, CHR 0xB0, CHR 0xD1, CHR 0x87, CHR 0xD0, CHR 0xB0, CHR '':'',
     CHR '' '']"

text \<open>\<^verbatim>\<open>signals.py\<close>, log_profile_save.\<close>

definition of_profile :: string where
  "of_profile =
    [CHR '' '', CHR 0xD0, CHR 0xBF, CHR 0xD1, CHR 0x80, CHR 0xD0, CHR 0xBE, CHR 0xD1,
     CHR 0x84, CHR 0xD1, CHR 0x96, CHR 0xD0, CHR 0xBB, CHR 0xD1, CHR 0x8E, CHR '' '']"

subsection \<open>The database\<close>

text \<open>
  The rows of the four models that are logged. A model instance is a record whose primary
  key is \<open>None\<close> until its first \<^verbatim>\<open>save\<close>; a foreign key holds the primary key of the row
  it refers to. Only the columns that the logging code reads are kept (\<^verbatim>\<open>content\<close>,
  \<^verbatim>\<open>created_at\<close>, \<^verbatim>\<open>bio\<close> and the like are read by none of the functions below).
\<close>

record user =
  user_pk :: "nat option"
  username :: string

record blog =
  blog_pk :: "nat option"
  title :: string
  blog_author :: nat

record comment =
  comment_pk :: "nat option"
  comment_blog :: nat
  comment_author :: nat

record user_profile =
  profile_pk :: "nat option"
  profile_user :: nat

text \<open>
  The state of the database: one list of rows per table, in insertion order; \<open>sequence\<close>,
  the next key that an \<^verbatim>\<open>INSERT\<close> hands out (it also stands for \<^verbatim>\<open>uuid.uuid4()\<close>); \<open>now\<close>,
  the clock that \<^verbatim>\<open>auto_now_add\<close> reads; and \<open>fail_after\<close>, the number of writes the
  database still accepts before it refuses one (\<open>None\<close>: it refuses none).
\<close>

record db =
  users :: "user list"
  blogs :: "blog list"
  comments :: "comment list"
  profiles :: "user_profile list"
  logs :: "action_log list"
  sequence :: nat
  now :: nat
  fail_after :: "nat option"

definition empty_db :: db where
  "empty_db = \<lparr>users = [], blogs = [], comments = [], profiles = [], logs = [],
     sequence = 1, now = 0, fail_after = None\<rparr>"

text \<open>
  A call returns its value or raises, and leaves a database behind in both cases.
  \<open>and_then\<close> is the sequencing of two statements: an exception of the first skips the
  second.
\<close>

definition and_then ::
  "(error + 'a) \<times> db \<Rightarrow> ('a \<Rightarrow> db \<Rightarrow> (error + 'b) \<times> db) \<Rightarrow> (error + 'b) \<times> db" where
  "and_then r f = (case r of (Inl e, d) \<Rightarrow> (Inl e, d) | (Inr x, d) \<Rightarrow> f x d)"

fun for_each :: "('a \<Rightarrow> db \<Rightarrow> (error + unit) \<times> db) \<Rightarrow> 'a list \<Rightarrow> db \<Rightarrow> (error + unit) \<times> db" where
  "for_each f [] d = (Inr (), d)"
| "for_each f (x # xs) d = and_then (f x d) (\<lambda>_. for_each f xs)"

text \<open>
  Every \<^verbatim>\<open>INSERT\<close>, \<^verbatim>\<open>UPDATE\<close> and \<^verbatim>\<open>DELETE\<close> first asks the database whether it accepts
  the write. The connection is in autocommit mode (no \<^verbatim>\<open>ATOMIC_REQUESTS\<close>, no
  \<^verbatim>\<open>transaction.atomic\<close> in the sources), so a write that was accepted stays when a later
  one is refused.
\<close>

definition execute :: "db \<Rightarrow> (error + unit) \<times> db" where
  "execute d =
     (case fail_after d of
        None \<Rightarrow> (Inr (), d)
      | Some 0 \<Rightarrow> (Inl DatabaseError, d)
      | Some (Suc n) \<Rightarrow> (Inr (), d\<lparr>fail_after := Some n\<rparr>))"

text \<open>
  \<^verbatim>\<open>with transaction.atomic():\<close> as the framework's deletion uses it: an exception inside
  the block restores the database of its entry.
\<close>

definition atomic :: "(db \<Rightarrow> (error + 'a) \<times> db) \<Rightarrow> db \<Rightarrow> (error + 'a) \<times> db" where
  "atomic block d = (case block d of (Inl e, _) \<Rightarrow> (Inl e, d) | (Inr x, d') \<Rightarrow> (Inr x, d'))"

text \<open>
  \<^verbatim>\<open>Model.save\<close> on one table, without the signal: an instance without a primary key is
  inserted under the next key; one with a key is updated in place when the table holds a
  row of that key and inserted otherwise. The result is the instance as \<^verbatim>\<open>save\<close> leaves
  it, the flag \<^verbatim>\<open>created\<close> of the signal, the table and the sequence.
\<close>

definition save_row ::
  "('r \<Rightarrow> nat option) \<Rightarrow> (nat \<Rightarrow> 'r \<Rightarrow> 'r) \<Rightarrow> 'r \<Rightarrow> 'r list \<Rightarrow> nat \<Rightarrow> ('r \<times> bool) \<times> 'r list \<times> nat" where
  "save_row pk set_pk row rows seq =
     (case pk row of
        None \<Rightarrow> ((set_pk seq row, True), rows @ [set_pk seq row], Suc seq)
      | Some k \<Rightarrow>
          if list_ex (\<lambda>r. pk r = Some k) rows
          then ((row, False), map (\<lambda>r. if pk r = Some k then row else r) rows, seq)
          else ((row, True), rows @ [row], max seq (Suc k)))"

subsection \<open>Writing a record (models.py, ActionLog and LoggedModel)\<close>

text \<open>
  A model instance as the generic foreign key sees it: its class and its primary key.
  Assigning it to \<^verbatim>\<open>content_object\<close> sets \<^verbatim>\<open>content_type\<close> to the row of the class and
  \<^verbatim>\<open>object_id\<close> to the key, which the \<^verbatim>\<open>CharField\<close> stores as a string.
\<close>

type_synonym obj = "model_class \<times> nat option"

definition set_content_object :: "obj option \<Rightarrow> action_log \<Rightarrow> action_log" where
  "set_content_object value log =
     (case value of
        None \<Rightarrow> log\<lparr>content_type := None, object_id := None\<rparr>
      | Some (cls, pk) \<Rightarrow> log\<lparr>content_type := Some cls, object_id := map_option str_nat pk\<rparr>)"

text \<open>
  \<^verbatim>\<open>
  @receiver(post_save)
  def universal_log_save(sender, instance, created, **kwargs):
      ignored_models = [ActionLog, ContentType]
      if sender in ignored_models:
          return
      if hasattr(instance, 'action_logs'):
          return
  \<close>
  The receiver is connected without a sender, so it runs after every \<^verbatim>\<open>save\<close> of every
  model. \<open>has_action_logs\<close> is \<^verbatim>\<open>hasattr(instance, 'action_logs')\<close>.
\<close>

definition universal_log_save :: "model_class \<Rightarrow> bool \<Rightarrow> bool \<Rightarrow> db \<Rightarrow> (error + unit) \<times> db" where
  "universal_log_save sender has_action_logs created d =
     (if sender \<in> set [ActionLog, ContentType] then (Inr (), d)
      else if has_action_logs then (Inr (), d)
      else (Inr (), d))"

text \<open>
  \<^verbatim>\<open>log.save()\<close> of an \<^verbatim>\<open>ActionLog\<close>: one write, then the signal, whose only receiver for
  this sender is \<open>universal_log_save\<close>. \<^verbatim>\<open>auto_now_add\<close> sets \<open>timestamp\<close> on the insert
  only.
\<close>

definition ActionLog_save :: "action_log \<Rightarrow> db \<Rightarrow> (error + action_log) \<times> db" where
  "ActionLog_save self d =
     and_then (execute d) (\<lambda>_ d.
       let created = \<not> list_ex (\<lambda>l. log_id l = log_id self) (logs d);
           self = (if created then self\<lparr>timestamp := now d\<rparr> else self);
           d = d\<lparr>logs := (if created then logs d @ [self]
                           else map (\<lambda>l. if log_id l = log_id self then self else l) (logs d))\<rparr>
       in and_then (universal_log_save ActionLog False created d) (\<lambda>_ d. (Inr self, d)))"

text \<open>
  \<^verbatim>\<open>ActionLog.objects.create(action_type=..., user=..., content_object=...,
  description=..., ip_address=..., user_agent=...)\<close>: a new instance under a fresh
  \<open>log_id\<close> (\<^verbatim>\<open>uuid.uuid4()\<close> is taken never to repeat), inserted by one write and
  stamped with the clock, then the signal.
\<close>

definition ActionLog_create ::
  "string \<Rightarrow> nat option \<Rightarrow> obj option \<Rightarrow> string \<Rightarrow> string option \<Rightarrow> string \<Rightarrow> db \<Rightarrow>
     (error + action_log) \<times> db" where
  "ActionLog_create a u content_object descr ip ua d =
     and_then (execute d) (\<lambda>_ d.
       let self = set_content_object content_object
                    \<lparr>log_id = sequence d, action_type = a, timestamp = now d, user = u,
                     content_type = None, object_id = None, description = descr,
                     ip_address = ip, user_agent = ua\<rparr>
       in and_then
            (universal_log_save ActionLog False True
               (d\<lparr>logs := logs d @ [self], sequence := Suc (sequence d)\<rparr>))
            (\<lambda>_ d. (Inr self, d)))"

text \<open>
  \<^verbatim>\<open>
  @classmethod
  def log_action(cls, user, action_type, obj=None, description='',
                 ip_address=None, user_agent=''):
      log = cls.objects.create(user=user, action_type=action_type,
          description=description, ip_address=ip_address, user_agent=user_agent)
      if obj:
          log.content_object = obj
          log.save()
      return log
  \<close>
  A model instance is true in Python, so \<^verbatim>\<open>if obj\<close> asks whether an object was given.
\<close>

definition ActionLog_log_action ::
  "nat option \<Rightarrow> string \<Rightarrow> obj option \<Rightarrow> string \<Rightarrow> string option \<Rightarrow> string \<Rightarrow> db \<Rightarrow>
     (error + action_log) \<times> db" where
  "ActionLog_log_action u a obj descr ip ua d =
     and_then (ActionLog_create a u None descr ip ua d) (\<lambda>log d.
       case obj of
         None \<Rightarrow> (Inr log, d)
       | Some _ \<Rightarrow> ActionLog_save (set_content_object obj log) d)"

text \<open>
  \<^verbatim>\<open>LoggedModel.log_action(self, user, action_type, description='', ip_address=None,
  user_agent='')\<close> passes \<^verbatim>\<open>obj=self\<close> to the class method. Every caller below leaves
  \<^verbatim>\<open>ip_address\<close> and \<^verbatim>\<open>user_agent\<close> at their defaults.
\<close>

definition log_action ::
  "obj \<Rightarrow> nat option \<Rightarrow> string \<Rightarrow> string \<Rightarrow> db \<Rightarrow> (error + action_log) \<times> db" where
  "log_action self u a descr d = ActionLog_log_action u a (Some self) descr None [] d"

subsection \<open>Reading related rows\<close>

text \<open>
  \<^verbatim>\<open>self.user\<close>, \<^verbatim>\<open>instance.blog\<close>: the row a foreign key refers to, or \<^verbatim>\<open>DoesNotExist\<close>.
\<close>

definition get_user :: "nat \<Rightarrow> db \<Rightarrow> (error + user) \<times> db" where
  "get_user k d =
     (case find (\<lambda>u. user_pk u = Some k) (users d) of
        None \<Rightarrow> (Inl DoesNotExist, d)
      | Some u \<Rightarrow> (Inr u, d))"

definition get_blog :: "nat \<Rightarrow> db \<Rightarrow> (error + blog) \<times> db" where
  "get_blog k d =
     (case find (\<lambda>b. blog_pk b = Some k) (blogs d) of
        None \<Rightarrow> (Inl DoesNotExist, d)
      | Some b \<Rightarrow> (Inr b, d))"

text \<open>\<^verbatim>\<open>str.capitalize()\<close> on ASCII text.\<close>

definition ascii_upper :: "char \<Rightarrow> char" where
  "ascii_upper c =
     (if 97 \<le> (of_char c :: nat) \<and> (of_char c :: nat) \<le> 122
      then char_of (of_char c - 32 :: nat) else c)"

definition ascii_lower :: "char \<Rightarrow> char" where
  "ascii_lower c =
     (if 65 \<le> (of_char c :: nat) \<and> (of_char c :: nat) \<le> 90
      then char_of (of_char c + 32 :: nat) else c)"

definition capitalize :: "string \<Rightarrow> string" where
  "capitalize s = (case s of [] \<Rightarrow> [] | c # cs \<Rightarrow> ascii_upper c # map ascii_lower cs)"

definition created_or_updated :: "bool \<Rightarrow> string" where
  "created_or_updated created = (if created then ''create'' else ''update'')"

subsection \<open>Receivers of the save and delete signals (signals.py)\<close>

text \<open>
  \<^verbatim>\<open>
  @receiver(post_save, sender=User)
  def log_user_save(sender, instance, created, **kwargs):
      action_type = 'create' if created else 'update'
      ...
      ActionLog.objects.create(action_type=action_type, user=instance,
          content_object=instance,
          description=f'{action_type.capitalize()} ...: {instance.username}',
          ip_address=None, user_agent='')
  \<close>
\<close>

definition log_user_save :: "user \<Rightarrow> bool \<Rightarrow> db \<Rightarrow> (error + unit) \<times> db" where
  "log_user_save instance created d =
     and_then
       (ActionLog_create (created_or_updated created) (user_pk instance)
          (Some (User, user_pk instance))
          (capitalize (created_or_updated created) @ of_user @ username instance) None [] d)
       (\<lambda>_ d. (Inr (), d))"

text \<open>
  \<^verbatim>\<open>
  @receiver(post_save, sender=UserProfile)
  def log_profile_save(sender, instance, created, **kwargs):
      action_type = 'create' if created else 'update'
      ActionLog.objects.create(action_type=action_type, user=instance.user,
          content_object=instance,
          description=f'{action_type.capitalize()} ... {instance.user.username}')
  \<close>
\<close>

definition log_profile_save :: "user_profile \<Rightarrow> bool \<Rightarrow> db \<Rightarrow> (error + unit) \<times> db" where
  "log_profile_save instance created d =
     and_then (get_user (profile_user instance) d) (\<lambda>u d.
     and_then
       (ActionLog_create (created_or_updated created) (user_pk u)
          (Some (UserProfile, profile_pk instance))
          (capitalize (created_or_updated created) @ of_profile @ username u) None [] d)
       (\<lambda>_ d. (Inr (), d)))"

text \<open>
  \<^verbatim>\<open>
  @receiver(post_save, sender=Blog)
  def log_blog_save(sender, instance, created, **kwargs):
      if created:
          return
      instance.log_action(user=instance.author, action_type='update',
          description=f'...: {instance.title}')
  \<close>
\<close>

definition log_blog_save :: "blog \<Rightarrow> bool \<Rightarrow> db \<Rightarrow> (error + unit) \<times> db" where
  "log_blog_save instance created d =
     (if created then (Inr (), d)
      else and_then
             (log_action (Blog, blog_pk instance) (Some (blog_author instance)) ''update''
                (blog_updated @ title instance) d)
             (\<lambda>_ d. (Inr (), d)))"

text \<open>
  \<^verbatim>\<open>
  @receiver(post_delete, sender=Blog)
  def log_blog_delete(sender, instance, **kwargs):
      ActionLog.objects.create(action_type='delete', user=instance.author,
          description=f'...: {instance.title}')
  \<close>
\<close>

definition log_blog_delete :: "blog \<Rightarrow> db \<Rightarrow> (error + unit) \<times> db" where
  "log_blog_delete instance d =
     and_then
       (ActionLog_create ''delete'' (Some (blog_author instance)) None
          (blog_deleted @ title instance) None [] d)
       (\<lambda>_ d. (Inr (), d))"

text \<open>
  \<^verbatim>\<open>
  @receiver(post_save, sender=Comment)
  def log_comment_save(sender, instance, created, **kwargs):
      if created:
          return
      instance.log_action(user=instance.author, action_type='update',
          description=f'... "{instance.blog.title}"')
  \<close>
\<close>

definition log_comment_save :: "comment \<Rightarrow> bool \<Rightarrow> db \<Rightarrow> (error + unit) \<times> db" where
  "log_comment_save instance created d =
     (if created then (Inr (), d)
      else and_then (get_blog (comment_blog instance) d) (\<lambda>b d.
           and_then
             (log_action (Comment, comment_pk instance) (Some (comment_author instance))
                ''update'' (comment_updated @ title b @ [CHR 0x22]) d)
             (\<lambda>_ d. (Inr (), d))))"

text \<open>
  \<^verbatim>\<open>
  @receiver(post_delete, sender=Comment)
  def log_comment_delete(sender, instance, **kwargs):
      ActionLog.objects.create(action_type='delete', user=instance.author,
          description=f'... "{instance.blog.title}"')
  \<close>
\<close>

definition log_comment_delete :: "comment \<Rightarrow> db \<Rightarrow> (error + unit) \<times> db" where
  "log_comment_delete instance d =
     and_then (get_blog (comment_blog instance) d) (\<lambda>b d.
     and_then
       (ActionLog_create ''delete'' (Some (comment_author instance)) None
          (comment_deleted @ title b @ [CHR 0x22]) None [] d)
       (\<lambda>_ d. (Inr (), d)))"

subsection \<open>Saving (models.py)\<close>

text \<open>
  \<^verbatim>\<open>User.save\<close> is the framework's: one write, then the receivers of \<^verbatim>\<open>post_save\<close> for the
  sender, in the order in which \<^verbatim>\<open>signals.py\<close> connects them. A user has the attribute
  \<^verbatim>\<open>action_logs\<close>, the reverse side of \<^verbatim>\<open>ActionLog.user\<close>.
\<close>

definition User_save :: "user \<Rightarrow> db \<Rightarrow> (error + user) \<times> db" where
  "User_save self d =
     and_then (execute d) (\<lambda>_ d.
       case save_row user_pk (\<lambda>k u. u\<lparr>user_pk := Some k\<rparr>) self (users d) (sequence d) of
         ((self, created), rows, seq) \<Rightarrow>
           and_then (log_user_save self created (d\<lparr>users := rows, sequence := seq\<rparr>)) (\<lambda>_ d.
           and_then (universal_log_save User True created d) (\<lambda>_ d. (Inr self, d))))"

text \<open>\<^verbatim>\<open>super().save()\<close> of the three logged models: the write, then the receivers.\<close>

definition Blog_super_save :: "blog \<Rightarrow> db \<Rightarrow> (error + blog) \<times> db" where
  "Blog_super_save self d =
     and_then (execute d) (\<lambda>_ d.
       case save_row blog_pk (\<lambda>k b. b\<lparr>blog_pk := Some k\<rparr>) self (blogs d) (sequence d) of
         ((self, created), rows, seq) \<Rightarrow>
           and_then (log_blog_save self created (d\<lparr>blogs := rows, sequence := seq\<rparr>)) (\<lambda>_ d.
           and_then (universal_log_save Blog True created d) (\<lambda>_ d. (Inr self, d))))"

definition Comment_super_save :: "comment \<Rightarrow> db \<Rightarrow> (error + comment) \<times> db" where
  "Comment_super_save self d =
     and_then (execute d) (\<lambda>_ d.
       case save_row comment_pk (\<lambda>k c. c\<lparr>comment_pk := Some k\<rparr>) self (comments d)
              (sequence d) of
         ((self, created), rows, seq) \<Rightarrow>
           and_then (log_comment_save self created (d\<lparr>comments := rows, sequence := seq\<rparr>))
             (\<lambda>_ d.
           and_then (universal_log_save Comment True created d) (\<lambda>_ d. (Inr self, d))))"

definition UserProfile_super_save :: "user_profile \<Rightarrow> db \<Rightarrow> (error + user_profile) \<times> db" where
  "UserProfile_super_save self d =
     and_then (execute d) (\<lambda>_ d.
       case save_row profile_pk (\<lambda>k p. p\<lparr>profile_pk := Some k\<rparr>) self (profiles d)
              (sequence d) of
         ((self, created), rows, seq) \<Rightarrow>
           and_then (log_profile_save self created (d\<lparr>profiles := rows, sequence := seq\<rparr>))
             (\<lambda>_ d.
           and_then (universal_log_save UserProfile True created d) (\<lambda>_ d. (Inr self, d))))"

text \<open>
  \<^verbatim>\<open>
  def save(self, *args, **kwargs):          # Blog
      is_new = self.pk is None
      super().save(*args, **kwargs)
      if is_new:
          self.log_action(user=self.author, action_type='create',
              description=f'...: {self.title}')
      else:
          self.log_action(user=self.author, action_type='update',
              description=f'...: {self.title}')
  \<close>
\<close>

definition Blog_save :: "blog \<Rightarrow> db \<Rightarrow> (error + blog) \<times> db" where
  "Blog_save self d =
     (let is_new = (blog_pk self = None) in
      and_then (Blog_super_save self d) (\<lambda>self d.
      and_then
        (if is_new
         then log_action (Blog, blog_pk self) (Some (blog_author self)) ''create''
                (blog_created @ title self) d
         else log_action (Blog, blog_pk self) (Some (blog_author self)) ''update''
                (blog_updated @ title self) d)
        (\<lambda>_ d. (Inr self, d))))"

text \<open>
  \<^verbatim>\<open>
  def save(self, *args, **kwargs):          # Comment
      is_new = self.pk is None
      super().save(*args, **kwargs)
      if is_new:
          self.log_action(user=self.author, action_type='create',
              description=f'...: {self.blog.title}')
  \<close>
\<close>

definition Comment_save :: "comment \<Rightarrow> db \<Rightarrow> (error + comment) \<times> db" where
  "Comment_save self d =
     (let is_new = (comment_pk self = None) in
      and_then (Comment_super_save self d) (\<lambda>self d.
        if is_new
        then and_then (get_blog (comment_blog self) d) (\<lambda>b d.
             and_then
               (log_action (Comment, comment_pk self) (Some (comment_author self)) ''create''
                  (comment_added @ title b) d)
               (\<lambda>_ d. (Inr self, d)))
        else (Inr self, d)))"

text \<open>
  \<^verbatim>\<open>
  def save(self, *args, **kwargs):          # UserProfile
      is_new = self.pk is None
      super().save(*args, **kwargs)
      if is_new:
          self.log_action(user=self.user, action_type='create',
              description=f'... {self.user.username}')
      else:
          self.log_action(user=self.user, action_type='update',
              description=f'... {self.user.username}')
  \<close>
\<close>

definition UserProfile_save :: "user_profile \<Rightarrow> db \<Rightarrow> (error + user_profile) \<times> db" where
  "UserProfile_save self d =
     (let is_new = (profile_pk self = None) in
      and_then (UserProfile_super_save self d) (\<lambda>self d.
      and_then (get_user (profile_user self) d) (\<lambda>u d.
      and_then
        (if is_new
         then log_action (UserProfile, profile_pk self) (user_pk u) ''create''
                (profile_created @ username u) d
         else log_action (UserProfile, profile_pk self) (user_pk u) ''update''
                (profile_updated @ username u) d)
        (\<lambda>_ d. (Inr self, d)))))"

subsection \<open>Deleting (the framework's collector; models.py, Blog.delete)\<close>

definition pk_in :: "nat option \<Rightarrow> nat list \<Rightarrow> bool" where
  "pk_in pk ks = (case pk of None \<Rightarrow> False | Some k \<Rightarrow> k \<in> set ks)"

definition pks_of :: "('r \<Rightarrow> nat option) \<Rightarrow> 'r list \<Rightarrow> nat list" where
  "pks_of pk rows = concat (map (\<lambda>r. case pk r of None \<Rightarrow> [] | Some k \<Rightarrow> [k]) rows)"

text \<open>
  The records that the reverse side of the generic foreign key finds for the instances
  of a class: \<^verbatim>\<open>filter(content_type=<the class>, object_id__in=<their keys>)\<close>.
\<close>

definition targets :: "model_class \<Rightarrow> nat list \<Rightarrow> action_log \<Rightarrow> bool" where
  "targets cls ks l =
     (content_type l = Some cls \<and> object_id l \<in> set (map (\<lambda>k. Some (str_nat k)) ks))"

text \<open>
  \<^verbatim>\<open>Model.delete\<close> of the framework, for the users \<open>us\<close>, blogs \<open>bs\<close>, comments \<open>cs\<close> and
  profiles \<open>ps\<close> given by their keys. The collector gathers

    \<^item> with the users their blogs, comments and profile, with the blogs their comments
      (\<^verbatim>\<open>on_delete=models.CASCADE\<close> on \<^verbatim>\<open>Blog.author\<close>, \<^verbatim>\<open>Comment.blog\<close>,
      \<^verbatim>\<open>Comment.author\<close>, \<^verbatim>\<open>UserProfile.user\<close>);

    \<^item> with every blog, comment and profile the records that target it
      (\<^verbatim>\<open>action_logs = GenericRelation(ActionLog, ...)\<close> of \<^verbatim>\<open>LoggedModel\<close>: the
      framework deletes the objects whose generic foreign key points at a deleted object
      that declares the relation);

    \<^item> for the users the records whose \<^verbatim>\<open>user\<close> they are, to be set to \<open>None\<close>
      (\<^verbatim>\<open>on_delete=models.SET_NULL\<close> on \<^verbatim>\<open>ActionLog.user\<close>).

  Then, inside one \<^verbatim>\<open>transaction.atomic()\<close>, it deletes the records, clears the users of
  the others, and deletes the rows class by class, referring rows before the rows they
  refer to, sending \<^verbatim>\<open>post_delete\<close> for every instance of a class right after the rows of
  the class are gone. Foreign keys are checked when the block commits. The collector's
  own statements count as one write for \<open>fail_after\<close>.
\<close>

definition Collector_delete ::
  "nat list \<Rightarrow> nat list \<Rightarrow> nat list \<Rightarrow> nat list \<Rightarrow> db \<Rightarrow> (error + unit) \<times> db" where
  "Collector_delete us bs cs ps d =
     (let bis = filter (\<lambda>b. pk_in (blog_pk b) bs \<or> blog_author b \<in> set us) (blogs d);
          bks = pks_of blog_pk bis;
          cis = filter (\<lambda>c. pk_in (comment_pk c) cs \<or> comment_blog c \<in> set bks \<or>
                             comment_author c \<in> set us) (comments d);
          cks = pks_of comment_pk cis;
          pis = filter (\<lambda>p. pk_in (profile_pk p) ps \<or> profile_user p \<in> set us) (profiles d);
          pks = pks_of profile_pk pis
      in atomic (\<lambda>d.
           and_then (execute d) (\<lambda>_ d.
           and_then
             (for_each log_comment_delete cis
                (d\<lparr>logs := map (\<lambda>l. if pk_in (user l) us then l\<lparr>user := None\<rparr> else l)
                             (filter (\<lambda>l. \<not> (targets Blog bks l \<or> targets Comment cks l \<or>
                                               targets UserProfile pks l)) (logs d)),
                   comments := filter (\<lambda>c. \<not> pk_in (comment_pk c) cks) (comments d)\<rparr>))
             (\<lambda>_ d.
           and_then
             (for_each log_blog_delete bis
                (d\<lparr>blogs := filter (\<lambda>b. \<not> pk_in (blog_pk b) bks) (blogs d)\<rparr>))
             (\<lambda>_ d.
           if list_ex (\<lambda>l. pk_in (user l) us) (logs d) then (Inl IntegrityError, d)
           else (Inr (), d\<lparr>profiles := filter (\<lambda>p. \<not> pk_in (profile_pk p) pks) (profiles d),
                           users := filter (\<lambda>u. \<not> pk_in (user_pk u) us) (users d)\<rparr>))))) d)"

text \<open>
  \<^verbatim>\<open>
  def delete(self, *args, **kwargs):        # Blog
      self.log_action(user=self.author, action_type='delete',
          description=f'...: {self.title}')
      super().delete(*args, **kwargs)
  \<close>
  \<^verbatim>\<open>Model.delete\<close> refuses an instance without a primary key.
\<close>

definition Blog_delete :: "blog \<Rightarrow> db \<Rightarrow> (error + unit) \<times> db" where
  "Blog_delete self d =
     and_then
       (log_action (Blog, blog_pk self) (Some (blog_author self)) ''delete''
          (blog_deleted @ title self) d)
       (\<lambda>_ d. case blog_pk self of
                 None \<Rightarrow> (Inl ValueError, d)
               | Some k \<Rightarrow> Collector_delete [] [k] [] [] d)"

text \<open>\<^verbatim>\<open>Comment\<close>, \<^verbatim>\<open>UserProfile\<close> and \<^verbatim>\<open>User\<close> inherit \<^verbatim>\<open>delete\<close> from the framework.\<close>

definition Comment_delete :: "comment \<Rightarrow> db \<Rightarrow> (error + unit) \<times> db" where
  "Comment_delete self d =
     (case comment_pk self of
        None \<Rightarrow> (Inl ValueError, d)
      | Some k \<Rightarrow> Collector_delete [] [] [k] [] d)"

definition UserProfile_delete :: "user_profile \<Rightarrow> db \<Rightarrow> (error + unit) \<times> db" where
  "UserProfile_delete self d =
     (case profile_pk self of
        None \<Rightarrow> (Inl ValueError, d)
      | Some k \<Rightarrow> Collector_delete [] [] [] [k] d)"

definition User_delete :: "user \<Rightarrow> db \<Rightarrow> (error + unit) \<times> db" where
  "User_delete self d =
     (case user_pk self of
        None \<Rightarrow> (Inl ValueError, d)
      | Some k \<Rightarrow> Collector_delete [k] [] [] [] d)"

subsection \<open>The generic receiver (signals.py, register_model_signals)\<close>

text \<open>
  An instance of any further model, as the generic receiver reads it: its class, its
  primary key, \<^verbatim>\<open>hasattr(instance, 'action_logs')\<close>, the attributes that may hold a user
  (\<open>attrs instance name = None\<close> when \<^verbatim>\<open>hasattr(instance, name)\<close> is false, \<open>Some None\<close> when
  the attribute is \<^verbatim>\<open>None\<close>, \<open>Some (Some k)\<close> when it is the user of key \<open>k\<close>), and
  \<^verbatim>\<open>str(instance)\<close>.
\<close>

record model_instance =
  model :: model_class
  instance_pk :: "nat option"
  has_action_logs :: bool
  attrs :: "string \<Rightarrow> nat option option"
  str :: string

text \<open>\<^verbatim>\<open>model_class.__name__\<close>.\<close>

fun class_name :: "model_class \<Rightarrow> string" where
  "class_name User = ''User''"
| "class_name Blog = ''Blog''"
| "class_name Comment = ''Comment''"
| "class_name UserProfile = ''UserProfile''"
| "class_name ActionLog = ''ActionLog''"
| "class_name ContentType = ''ContentType''"
| "class_name (Other name) = name"

text \<open>
  \<^verbatim>\<open>
  def register_model_signals(model_class):
      @receiver(post_save, sender=model_class)
      def log_model_save(sender, instance, created, **kwargs):
          action_type = 'create' if created else 'update'
          user = None
          if hasattr(instance, 'author'):
              user = instance.author
          elif hasattr(instance, 'user'):
              user = instance.user
          elif hasattr(instance, 'created_by'):
              user = instance.created_by
          ActionLog.objects.create(action_type=action_type, user=user,
              content_object=instance,
              description=f'{action_type.capitalize()} {model_class.__name__}: '
                          f'{str(instance)[:100]}')
  \<close>
  The slice \<^verbatim>\<open>[:100]\<close> counts characters; on the bytes of the embedding it is the same
  for ASCII text.
\<close>

definition log_model_save ::
  "model_class \<Rightarrow> model_instance \<Rightarrow> bool \<Rightarrow> db \<Rightarrow> (error + unit) \<times> db" where
  "log_model_save model_class instance created d =
     (let u = (case attrs instance ''author'' of
                 Some author \<Rightarrow> author
               | None \<Rightarrow>
                   (case attrs instance ''user'' of
                      Some usr \<Rightarrow> usr
                    | None \<Rightarrow>
                        (case attrs instance ''created_by'' of
                           Some created_by \<Rightarrow> created_by
                         | None \<Rightarrow> None)))
      in and_then
           (ActionLog_create (created_or_updated created) u
              (Some (model instance, instance_pk instance))
              (capitalize (created_or_updated created) @ '' '' @ class_name model_class @
                 '': '' @ take 100 (str instance))
              None [] d)
           (\<lambda>_ d. (Inr (), d)))"

text \<open>
  \<^verbatim>\<open>@receiver(post_save, sender=model_class)\<close> inside \<^verbatim>\<open>register_model_signals\<close> is
  \<^verbatim>\<open>post_save.connect(log_model_save, sender=model_class)\<close> with the framework's default
  \<^verbatim>\<open>weak=True\<close>: the signal keeps a weak reference to the function. A connection is the
  sender it was made for and whether the function it refers to is still alive.
  \<open>log_model_save\<close> is defined inside the call and nothing else holds it (no
  \<^verbatim>\<open>weak=False\<close>, no \<^verbatim>\<open>dispatch_uid\<close>, no return value, no module attribute), so it is
  collected when \<^verbatim>\<open>register_model_signals\<close> returns: the connection that a call leaves
  behind is dead. The receivers at the top of \<^verbatim>\<open>signals.py\<close> are held by the module and
  stay alive.
\<close>

type_synonym connections = "(model_class \<times> bool) list"

definition register_model_signals :: "model_class \<Rightarrow> connections \<Rightarrow> connections" where
  "register_model_signals model_class receivers = receivers @ [(model_class, False)]"

text \<open>
  The receivers of \<^verbatim>\<open>post_save\<close> for an instance of a model other than the four above:
  \<open>universal_log_save\<close>, connected when \<^verbatim>\<open>signals.py\<close> is imported, then the live
  connections made for the class of the instance, each running its \<open>log_model_save\<close>.
  The application itself never calls \<^verbatim>\<open>register_model_signals\<close>.
\<close>

definition post_save ::
  "connections \<Rightarrow> model_instance \<Rightarrow> bool \<Rightarrow> db \<Rightarrow> (error + unit) \<times> db" where
  "post_save receivers instance created d =
     and_then (universal_log_save (model instance) (has_action_logs instance) created d)
       (\<lambda>_ d. for_each (\<lambda>(cls, alive) d. log_model_save cls instance created d)
                 (filter (\<lambda>(cls, alive). alive \<and> cls = model instance) receivers) d)"

subsection \<open>Example states\<close>

text \<open>
  A user, her first blog and her profile, and the databases that saving them one after
  the other leaves, starting from the empty one: \<open>db_user\<close> holds the user, \<open>db_blog\<close> the
  user and the blog, \<open>db_profile\<close> the user and the profile. \<open>article\<close> is an instance of
  a further model with an author.
\<close>

definition alice :: user where
  "alice = \<lparr>user_pk = Some 1, username = ''alice''\<rparr>"

definition hello :: blog where
  "hello = \<lparr>blog_pk = Some 3, title = ''Hello'', blog_author = 1\<rparr>"

definition profile :: user_profile where
  "profile = \<lparr>profile_pk = Some 3, profile_user = 1\<rparr>"

definition db_user :: db where
  "db_user = snd (User_save (alice\<lparr>user_pk := None\<rparr>) empty_db)"

definition db_blog :: db where
  "db_blog = snd (Blog_save (hello\<lparr>blog_pk := None\<rparr>) db_user)"

definition db_profile :: db where
  "db_profile = snd (UserProfile_save (profile\<lparr>profile_pk := None\<rparr>) db_user)"

definition article :: model_instance where
  "article = \<lparr>model = Other ''Article'', instance_pk = Some 1, has_action_logs = False,
     attrs = (\<lambda>name. if name = ''user'' then Some (Some 1) else None), str = ''News''\<rparr>"

text \<open>What the examples show of a record: its action, actor and target.\<close>

definition brief :: "action_log \<Rightarrow> string \<times> nat option \<times> content_type option \<times> string option" where
  "brief l = (action_type l, user l, content_type l, object_id l)"

section \<open>Properties\<close>

subsection \<open>Python strings\<close>

lemma py_split_item0: "item0 (py_split sep s) = Some (takeWhile (\<lambda>c. c \<noteq> sep) s)"
  by (induction s) (auto simp: item0_def split: list.splits)

subsection \<open>The origin address\<close>

text \<open>
  C10, as amended. When \<^verbatim>\<open>HTTP_X_FORWARDED_FOR\<close> is present and not empty, the origin
  address is the part of its value before the first comma; when the header is absent
  or empty, it is \<^verbatim>\<open>REMOTE_ADDR\<close>, which may be absent.
\<close>

theorem get_client_ip_forwarded_or_remote:
  "get_client_ip META =
     (case META ''HTTP_X_FORWARDED_FOR'' of
        None \<Rightarrow> META ''REMOTE_ADDR''
      | Some x \<Rightarrow>
          if x = [] then META ''REMOTE_ADDR''
          else Some (takeWhile (\<lambda>c. c \<noteq> CHR '','') x))"
  by (simp add: get_client_ip_def py_split_item0 split: option.splits)

text \<open>
  C10 as stated fails for a header that is present with an empty value: the claim gives
  the empty part before the first comma, the code gives \<^verbatim>\<open>REMOTE_ADDR\<close>.
\<close>

theorem get_client_ip_empty_header_counterexample:
  "get_client_ip [''HTTP_X_FORWARDED_FOR'' \<mapsto> [], ''REMOTE_ADDR'' \<mapsto> ''10.0.0.1'']
     = Some ''10.0.0.1'' \<and>
   get_client_ip [''HTTP_X_FORWARDED_FOR'' \<mapsto> [], ''REMOTE_ADDR'' \<mapsto> ''10.0.0.1'']
     \<noteq> Some (takeWhile (\<lambda>c. c \<noteq> CHR '','') [])"
  by (simp add: get_client_ip_def)

subsection \<open>The page size\<close>




subsection \<open>Listings\<close>

lemma descending_unique:
  fixes f :: "'a \<Rightarrow> nat"
  assumes m: "mset xs = mset ys"
    and sx: "sorted_wrt (\<lambda>a b. f a \<ge> f b) xs"
    and sy: "sorted_wrt (\<lambda>a b. f a \<ge> f b) ys"
    and d: "distinct (map f xs)"
  shows "xs = ys"
proof -
  have dy: "distinct (map f ys)"
    using d m by (metis mset_eq_imp_distinct_iff mset_map)
  have s: "set xs = set ys" using m by (rule mset_eq_setD)
  have kx: "sorted (rev (map f xs))"
    using sx by (simp add: sorted_wrt_rev sorted_wrt_map)
  have ky: "sorted (rev (map f ys))"
    using sy by (simp add: sorted_wrt_rev sorted_wrt_map)
  have "rev (map f xs) = rev (map f ys)"
    using kx ky d dy s by (intro sorted_distinct_set_unique) auto
  then have e: "map f xs = map f ys" by simp
  have "inj_on f (set xs \<union> set ys)" using d s by (simp add: distinct_map)
  then show ?thesis using e by (simp add: inj_on_map_eq_map)
qed

lemma ordering_eq: "ordering = (\<lambda>a b. timestamp b \<le> timestamp a)"
  by (intro ext) (simp add: ordering_def)


text \<open>
  C7, as amended. The default listing holds exactly the rows of the table, in an order
  descending in \<open>timestamp\<close>: a row never precedes one of later timestamp. The order of
  rows of equal timestamp is not fixed by \<^verbatim>\<open>Meta.ordering\<close>; when all timestamps differ,
  the listing is unique, so repeating the query gives the same order.
\<close>

theorem default_listing_descending:
  assumes "default_listing rows xs"
  shows "mset xs = mset rows \<and>
         (\<forall>i j. i < j \<and> j < length xs \<longrightarrow> timestamp (xs ! j) \<le> timestamp (xs ! i)) \<and>
         (default_listing rows ys \<and> distinct (map timestamp rows) \<longrightarrow> ys = xs)"
proof (intro conjI impI)
  show "mset xs = mset rows" using assms by (simp add: default_listing_def)
  show "\<forall>i j. i < j \<and> j < length xs \<longrightarrow> timestamp (xs ! j) \<le> timestamp (xs ! i)"
    using assms by (auto simp: default_listing_def ordering_eq sorted_wrt_iff_nth_less)
  assume h: "default_listing rows ys \<and> distinct (map timestamp rows)"
  have "mset ys = mset xs" using h assms by (simp add: default_listing_def)
  moreover have "distinct (map timestamp ys)"
    using h by (metis default_listing_def mset_eq_imp_distinct_iff mset_map)
  ultimately show "ys = xs"
    using h assms descending_unique [of ys xs timestamp]
    by (simp add: default_listing_def ordering_eq)
qed

lemma example_fields:
  "timestamp log_blog7 = 5" "timestamp log_profile7 = 5" "timestamp log_blog8 = 9"
  "content_type log_blog7 = Some Blog" "content_type log_profile7 = Some UserProfile"
  "content_type log_blog8 = Some Blog"
  "object_id log_blog7 = Some ''7''" "object_id log_profile7 = Some ''7''"
  "object_id log_blog8 = Some ''8''"
  by (simp_all add: log_blog7_def log_profile7_def log_blog8_def)

lemma example_distinct:
  "log_blog7 \<noteq> log_profile7" "log_blog7 \<noteq> log_blog8" "log_profile7 \<noteq> log_blog8"
  by (simp_all add: log_blog7_def log_profile7_def log_blog8_def)

theorem default_listing_descending_witness:
  "default_listing [log_blog7, log_blog8] [log_blog8, log_blog7] \<and>
   distinct (map timestamp [log_blog7, log_blog8]) \<and>
   mset [log_blog8, log_blog7] = mset [log_blog7, log_blog8] \<and>
   timestamp ([log_blog8, log_blog7] ! 1) \<le> timestamp ([log_blog8, log_blog7] ! 0)"
proof -
  have h: "default_listing [log_blog7, log_blog8] [log_blog8, log_blog7]"
    by (simp add: default_listing_def ordering_def example_fields)
  have d: "distinct (map timestamp [log_blog7, log_blog8])"
    by (simp add: example_fields)
  note t = default_listing_descending [OF h, of "[log_blog8, log_blog7]"]
  have m: "mset [log_blog8, log_blog7] = mset [log_blog7, log_blog8]"
    by (rule t [THEN conjunct1])
  have o: "\<forall>i j. i < j \<and> j < length [log_blog8, log_blog7] \<longrightarrow>
             timestamp ([log_blog8, log_blog7] ! j) \<le> timestamp ([log_blog8, log_blog7] ! i)"
    by (rule t [THEN conjunct2, THEN conjunct1])
  have "timestamp ([log_blog8, log_blog7] ! 1) \<le> timestamp ([log_blog8, log_blog7] ! 0)"
    using o [rule_format, of 0 1] by simp
  then show ?thesis using h d m by (intro conjI)
qed

text \<open>
  C7 as stated fails when two records carry the same timestamp: both arrangements of
  them are default listings, so the order of the tie is not determined.
\<close>

theorem default_listing_tie_counterexample:
  "timestamp log_blog7 = timestamp log_profile7 \<and>
   default_listing [log_blog7, log_profile7] [log_blog7, log_profile7] \<and>
   default_listing [log_blog7, log_profile7] [log_profile7, log_blog7] \<and>
   [log_blog7, log_profile7] \<noteq> [log_profile7, log_blog7]"
  by (simp add: default_listing_def ordering_def example_fields example_distinct)



subsection \<open>Writing a record\<close>

text \<open>
  C4. \<open>ActionLog.log_action\<close> with an object writes twice: the insert of a record without
  target, then the update that sets the target. When the database accepts the first
  write and refuses the second, the call raises and the record without target stays:
  here for a view of the blog \<open>hello\<close> by its author.
\<close>

theorem log_action_leaves_record_without_target:
  "fst (ActionLog_log_action (Some 1) ''view'' (Some (Blog, Some 3)) ''seen'' None []
          (db_blog\<lparr>fail_after := Some 1\<rparr>)) = Inl DatabaseError \<and>
   map brief (logs (snd (ActionLog_log_action (Some 1) ''view'' (Some (Blog, Some 3)) ''seen''
          None [] (db_blog\<lparr>fail_after := Some 1\<rparr>)))) =
     map brief (logs db_blog) @ [(''view'', Some 1, None, None)]"
  by code_simp

subsection \<open>A failing log write\<close>

text \<open>
  C3. Neither \<open>Blog.delete\<close> nor \<open>Blog.save\<close> catches what the logging raises. When the
  database refuses the write of the record, \<open>Blog.delete\<close> raises before it deletes: the
  blog stays. When it accepts the row of a new blog and refuses the record, \<open>Blog.save\<close>
  raises although the row is stored.
\<close>

theorem Blog_delete_blocked_by_failing_log:
  "fst (Blog_delete hello (db_blog\<lparr>fail_after := Some 0\<rparr>)) = Inl DatabaseError \<and>
   blogs (snd (Blog_delete hello (db_blog\<lparr>fail_after := Some 0\<rparr>))) = [hello] \<and>
   blogs (snd (Blog_delete hello db_blog)) = [] \<and>
   fst (Blog_save (hello\<lparr>blog_pk := None\<rparr>) (db_user\<lparr>fail_after := Some 1\<rparr>))
     = Inl DatabaseError \<and>
   blogs (snd (Blog_save (hello\<lparr>blog_pk := None\<rparr>) (db_user\<lparr>fail_after := Some 1\<rparr>)))
     = [hello]"
  by code_simp

subsection \<open>The records of a lifecycle\<close>

text \<open>
  C2. The records that the steps of a lifecycle leave. The first save of the blog \<open>hello\<close>
  leaves one \<open>create\<close> record, its second save two \<open>update\<close> records (one by \<open>Blog.save\<close>,
  one by \<open>log_blog_save\<close>); the first save of the profile leaves two \<open>create\<close> records (one
  by \<open>log_profile_save\<close>, one by \<open>UserProfile.save\<close>); deleting the profile succeeds and
  leaves no \<open>delete\<close> record.
\<close>

theorem lifecycle_records:
  "map brief (filter (\<lambda>l. content_type l = Some Blog) (logs db_blog)) =
     [(''create'', Some 1, Some Blog, Some ''3'')] \<and>
   map brief (filter (\<lambda>l. content_type l = Some Blog) (logs (snd (Blog_save hello db_blog)))) =
     [(''create'', Some 1, Some Blog, Some ''3''),
      (''update'', Some 1, Some Blog, Some ''3''),
      (''update'', Some 1, Some Blog, Some ''3'')] \<and>
   map brief (filter (\<lambda>l. content_type l = Some UserProfile) (logs db_profile)) =
     [(''create'', Some 1, Some UserProfile, Some ''3''),
      (''create'', Some 1, Some UserProfile, Some ''3'')] \<and>
   fst (UserProfile_delete profile db_profile) = Inr () \<and>
   profiles (snd (UserProfile_delete profile db_profile)) = [] \<and>
   filter (\<lambda>l. action_type l = ''delete'') (logs (snd (UserProfile_delete profile db_profile)))
     = []"
  by code_simp

subsection \<open>Deleting the target and the actor\<close>

text \<open>
  C1. Deleting the blog \<open>hello\<close> succeeds and destroys the records that target it: the
  \<open>create\<close> record of its first save and the \<open>delete\<close> record that \<open>Blog.delete\<close> has just
  written. What is left is the record of the user and the record without target that
  \<open>log_blog_delete\<close> writes.
\<close>

theorem Blog_delete_destroys_records_of_blog:
  "fst (Blog_delete hello db_blog) = Inr () \<and>
   map brief (logs db_blog) =
     [(''create'', Some 1, Some User, Some ''1''),
      (''create'', Some 1, Some Blog, Some ''3'')] \<and>
   map brief (logs (snd (Blog_delete hello db_blog))) =
     [(''create'', Some 1, Some User, Some ''1''),
      (''delete'', Some 1, None, None)]"
  by code_simp

text \<open>
  C6. Deleting the user \<open>alice\<close> succeeds; it deletes her profile with her, and with the
  profile the two records that target it, whose actor she is. The record that targets
  the user herself stays, its actor cleared.
\<close>

theorem User_delete_destroys_records_of_profile:
  "fst (User_delete alice db_profile) = Inr () \<and>
   map brief (logs db_profile) =
     [(''create'', Some 1, Some User, Some ''1''),
      (''create'', Some 1, Some UserProfile, Some ''3''),
      (''create'', Some 1, Some UserProfile, Some ''3'')] \<and>
   map brief (logs (snd (User_delete alice db_profile))) =
     [(''create'', None, Some User, Some ''1'')]"
  by code_simp

subsection \<open>The generic receiver\<close>

text \<open>
  C5. After \<^verbatim>\<open>register_model_signals(Article)\<close>, the save of an article whose \<^verbatim>\<open>user\<close> is
  \<open>alice\<close> leaves the database as it was: \<open>universal_log_save\<close> writes nothing, and the
  receiver that the call connected is gone. Had \<open>log_model_save\<close> run, it would have
  appended one \<open>create\<close> record targeting the article, with the user as its actor.
\<close>

theorem registered_class_save_not_logged:
  "post_save (register_model_signals (Other ''Article'') []) article True db_user
     = (Inr (), db_user) \<and>
   map brief (logs (snd (log_model_save (Other ''Article'') article True db_user))) =
     map brief (logs db_user) @ [(''create'', Some 1, Some (Other ''Article''), Some ''1'')]"
proof (rule conjI)
  show "post_save (register_model_signals (Other ''Article'') []) article True db_user
          = (Inr (), db_user)"
    by (simp add: post_save_def register_model_signals_def universal_log_save_def
                  and_then_def)
  show "map brief (logs (snd (log_model_save (Other ''Article'') article True db_user))) =
          map brief (logs db_user) @
            [(''create'', Some 1, Some (Other ''Article''), Some ''1'')]"
    by code_simp
qed

end
